theory Spec2Isabelle
  imports Complex_Main
begin

section \<open>Python values and the built-in operations the extractors use\<close>

text \<open>
  The payloads of both transport channels are decoded JSON: \<open>None\<close>, booleans, integers,
  floats, strings, lists and string-keyed dictionaries. A dictionary is an association
  list (the first binding of a key is its value). Python integers are unbounded
  (\<open>int\<close>); a float is modelled by the rational it denotes, so the arithmetic below is
  exact where IEEE doubles round (infinities and NaN are left out).
\<close>

datatype pyval =
    PNone
  | PBool bool
  | PInt int
  | PFloat rat
  | PStr string
  | PList "pyval list"
  | PDict "(string \<times> pyval) list"

text \<open>The exceptions the extractors can meet. \<open>LookupError\<close> is the base class of
  \<open>KeyError\<close> and \<open>IndexError\<close>.\<close>

datatype exn =
    APIError
  | KeyError
  | IndexError
  | TypeError
  | ValueError
  | ZeroDivisionError
  | AttributeError

definition is_LookupError :: "exn \<Rightarrow> bool" where
  "is_LookupError e = (e = KeyError \<or> e = IndexError)"

text \<open>Sequencing of computations that may raise: the first exception wins.\<close>

fun ebind :: "exn + 'a \<Rightarrow> ('a \<Rightarrow> exn + 'b) \<Rightarrow> exn + 'b" where
  "ebind (Inl e) f = Inl e"
| "ebind (Inr x) f = f x"

text \<open>Truth value testing (\<open>if x:\<close>, \<open>not x\<close>).\<close>

fun truthy :: "pyval \<Rightarrow> bool" where
  "truthy PNone = False"
| "truthy (PBool b) = b"
| "truthy (PInt n) = (n \<noteq> 0)"
| "truthy (PFloat q) = (q \<noteq> 0)"
| "truthy (PStr s) = (s \<noteq> [])"
| "truthy (PList xs) = (xs \<noteq> [])"
| "truthy (PDict d) = (d \<noteq> [])"

text \<open>\<open>x == 0\<close>: numbers compare by value, \<open>False == 0\<close> holds, nothing else equals 0.\<close>

fun eq_zero :: "pyval \<Rightarrow> bool" where
  "eq_zero (PInt n) = (n = 0)"
| "eq_zero (PFloat q) = (q = 0)"
| "eq_zero (PBool b) = (\<not> b)"
| "eq_zero _ = False"

text \<open>\<open>obj["key"]\<close> with a string key: only a dictionary can answer; a list, a string
  or a scalar raises \<open>TypeError\<close>.\<close>

fun subscr_str :: "pyval \<Rightarrow> string \<Rightarrow> exn + pyval" where
  "subscr_str (PDict d) k = (case map_of d k of None \<Rightarrow> Inl KeyError | Some v \<Rightarrow> Inr v)"
| "subscr_str _ k = Inl TypeError"

text \<open>\<open>obj[n]\<close> with a literal index \<open>n \<ge> 0\<close>. A JSON dictionary has no integer key.\<close>

fun subscr_int :: "pyval \<Rightarrow> nat \<Rightarrow> exn + pyval" where
  "subscr_int (PList xs) n = (if n < length xs then Inr (xs ! n) else Inl IndexError)"
| "subscr_int (PStr s) n = (if n < length s then Inr (PStr [s ! n]) else Inl IndexError)"
| "subscr_int (PDict d) n = Inl KeyError"
| "subscr_int _ n = Inl TypeError"

text \<open>\<open>obj.get(key, default)\<close>: a method of dictionaries only.\<close>

definition dget :: "(string \<times> pyval) list \<Rightarrow> string \<Rightarrow> pyval \<Rightarrow> pyval" where
  "dget d k dflt = (case map_of d k of None \<Rightarrow> dflt | Some v \<Rightarrow> v)"

fun as_dict :: "pyval \<Rightarrow> exn + (string \<times> pyval) list" where
  "as_dict (PDict d) = Inr d"
| "as_dict _ = Inl AttributeError"

definition py_get :: "pyval \<Rightarrow> string \<Rightarrow> pyval \<Rightarrow> exn + pyval" where
  "py_get obj k dflt = ebind (as_dict obj) (\<lambda>d. Inr (dget d k dflt))"

text \<open>Iteration (\<open>for x in obj\<close>, \<open>filter(f, obj)\<close>): a list yields its elements, a
  string its characters, a dictionary its keys; a scalar is not iterable.\<close>

fun py_iter :: "pyval \<Rightarrow> exn + pyval list" where
  "py_iter (PList xs) = Inr xs"
| "py_iter (PStr s) = Inr (map (\<lambda>c. PStr [c]) s)"
| "py_iter (PDict d) = Inr (map (\<lambda>kv. PStr (fst kv)) d)"
| "py_iter _ = Inl TypeError"

fun py_len :: "pyval \<Rightarrow> exn + nat" where
  "py_len (PList xs) = Inr (length xs)"
| "py_len (PStr s) = Inr (length s)"
| "py_len (PDict d) = Inr (length d)"
| "py_len _ = Inl TypeError"

text \<open>Numbers: \<open>bool\<close> is a subclass of \<open>int\<close>.\<close>

fun py_add :: "pyval \<Rightarrow> pyval \<Rightarrow> exn + pyval" where
  "py_add (PInt a) (PInt b) = Inr (PInt (a + b))"
| "py_add (PInt a) (PBool b) = Inr (PInt (a + (if b then 1 else 0)))"
| "py_add (PInt a) (PFloat q) = Inr (PFloat (of_int a + q))"
| "py_add (PFloat p) (PInt b) = Inr (PFloat (p + of_int b))"
| "py_add (PFloat p) (PBool b) = Inr (PFloat (p + (if b then 1 else 0)))"
| "py_add (PFloat p) (PFloat q) = Inr (PFloat (p + q))"
| "py_add _ _ = Inl TypeError"

text \<open>\<open>sum(xs)\<close> starts from the integer 0 and adds from the left.\<close>

fun py_sum_from :: "pyval \<Rightarrow> pyval list \<Rightarrow> exn + pyval" where
  "py_sum_from acc [] = Inr acc"
| "py_sum_from acc (x # xs) = ebind (py_add acc x) (\<lambda>acc'. py_sum_from acc' xs)"

definition py_sum :: "pyval list \<Rightarrow> exn + pyval" where
  "py_sum xs = py_sum_from (PInt 0) xs"

text \<open>\<open>x / n\<close> with an integer divisor: true division, the result is a float; the
  operand types are checked before the divisor.\<close>

fun py_truediv :: "pyval \<Rightarrow> int \<Rightarrow> exn + pyval" where
  "py_truediv (PInt a) n = (if n = 0 then Inl ZeroDivisionError else Inr (PFloat (of_int a / of_int n)))"
| "py_truediv (PBool b) n =
     (if n = 0 then Inl ZeroDivisionError else Inr (PFloat ((if b then 1 else 0) / of_int n)))"
| "py_truediv (PFloat q) n = (if n = 0 then Inl ZeroDivisionError else Inr (PFloat (q / of_int n)))"
| "py_truediv _ n = Inl TypeError"

text \<open>Rounding is to the nearest, ties to even.\<close>

definition round_half_even :: "rat \<Rightarrow> int" where
  "round_half_even q =
     (let f = \<lfloor>q\<rfloor>; r = q - of_int f
      in if r < 1 / 2 then f else if 1 / 2 < r then f + 1 else if even f then f else f + 1)"

definition round2 :: "rat \<Rightarrow> rat" where
  "round2 q = of_int (round_half_even (q * 100)) / 100"

text \<open>\<open>round(x, 2)\<close>: an integer is returned as it is, a float is rounded at the second
  decimal and stays a float.\<close>

fun py_round2 :: "pyval \<Rightarrow> exn + pyval" where
  "py_round2 (PInt a) = Inr (PInt a)"
| "py_round2 (PBool b) = Inr (PInt (if b then 1 else 0))"
| "py_round2 (PFloat q) = Inr (PFloat (round2 q))"
| "py_round2 _ = Inl TypeError"

text \<open>\<open>round(x)\<close>: the nearest integer.\<close>

fun py_round :: "pyval \<Rightarrow> exn + pyval" where
  "py_round (PInt a) = Inr (PInt a)"
| "py_round (PBool b) = Inr (PInt (if b then 1 else 0))"
| "py_round (PFloat q) = Inr (PInt (round_half_even q))"
| "py_round _ = Inl TypeError"

text \<open>\<open>float(x)\<close>. Parsing a string is Python's own; it is the parameter \<open>str_float\<close>
  (\<open>None\<close> where \<open>float\<close> raises \<open>ValueError\<close>).\<close>

fun py_float :: "(string \<Rightarrow> rat option) \<Rightarrow> pyval \<Rightarrow> exn + pyval" where
  "py_float str_float (PInt a) = Inr (PFloat (of_int a))"
| "py_float str_float (PBool b) = Inr (PFloat (if b then 1 else 0))"
| "py_float str_float (PFloat q) = Inr (PFloat q)"
| "py_float str_float (PStr s) =
     (case str_float s of None \<Rightarrow> Inl ValueError | Some q \<Rightarrow> Inr (PFloat q))"
| "py_float str_float _ = Inl TypeError"

text \<open>\<open>x > 0\<close>.\<close>

fun py_gt_zero :: "pyval \<Rightarrow> exn + bool" where
  "py_gt_zero (PInt a) = Inr (0 < a)"
| "py_gt_zero (PBool b) = Inr b"
| "py_gt_zero (PFloat q) = Inr (0 < q)"
| "py_gt_zero _ = Inl TypeError"

text \<open>\<open>xs[i]\<close> on a Python list of length \<open>n\<close> with an index taken from the payload:
  the position it denotes. Negative indices count from the end, a boolean is 0 or 1,
  anything else is no index.\<close>

definition int_index :: "nat \<Rightarrow> int \<Rightarrow> exn + nat" where
  "int_index n i =
     (if 0 \<le> i \<and> i < int n then Inr (nat i)
      else if i < 0 \<and> - int n \<le> i then Inr (nat (int n + i))
      else Inl IndexError)"

fun list_index :: "nat \<Rightarrow> pyval \<Rightarrow> exn + nat" where
  "list_index n (PInt i) = int_index n i"
| "list_index n (PBool b) = int_index n (if b then 1 else 0)"
| "list_index n _ = Inl TypeError"

text \<open>Decimal digits of a number, for the f-strings that build keys
  (\<open>f"chain_acn{i}"\<close>).\<close>

definition digit_char :: "nat \<Rightarrow> char" where
  "digit_char d = char_of (48 + d)"

fun str_nat :: "nat \<Rightarrow> string" where
  "str_nat n = (if n < 10 then [digit_char n] else str_nat (n div 10) @ [digit_char (n mod 10)])"

declare str_nat.simps [simp del]

section \<open>The data classes\<close>

text \<open>
  Modelled from the spec: the \<open>HashBoard\<close> and \<open>Fan\<close> data classes (\<open>pyasic.data\<close>)
  are not among the source files. A HashBoard has a slot, a chip count, the
  expected chip count, a hashrate, a board and a chip temperature and a serial number
  (each unset until read) and the flag \<open>missing\<close>, which defaults to true. A Fan has a
  speed, default 0. The extractors store payload values in the fields as they come, so
  the fields hold Python values.
\<close>

record hashboard =
  slot :: int
  hashrate :: pyval
  temp :: pyval
  chip_temp :: pyval
  chips :: pyval
  expected_chips :: int
  serial_number :: pyval
  missing :: bool

definition HashBoard :: "int \<Rightarrow> int \<Rightarrow> hashboard" where
  "HashBoard s ec =
     \<lparr>slot = s, hashrate = PNone, temp = PNone, chip_temp = PNone, chips = PNone,
      expected_chips = ec, serial_number = PNone, missing = True\<rparr>"

record fan =
  speed :: pyval

definition Fan :: fan where
  "Fan = \<lparr>speed = PInt 0\<rparr>"

section \<open>AntminerModern\<close>

subsection \<open>\<open>_get_hashboards\<close>\<close>

text \<open>
  Each assignment \<open>hashboards[board["index"]].field = rhs\<close> evaluates its right-hand
  side first, then \<open>board["index"]\<close>, then the list subscript, and only then stores:
  a statement that raises leaves the list as it was.
\<close>

definition board_index :: "nat \<Rightarrow> pyval \<Rightarrow> exn + nat" where
  "board_index n board = ebind (subscr_str board ''index'') (list_index n)"

definition set_board ::
  "hashboard list \<Rightarrow> pyval \<Rightarrow> (hashboard \<Rightarrow> hashboard) \<Rightarrow> exn + hashboard list" where
  "set_board hs board upd =
     ebind (board_index (length hs) board) (\<lambda>k. Inr (hs[k := upd (hs ! k)]))"

text \<open>\<open>list(filter(lambda x: not x == 0, board[key]))\<close> followed by
  \<open>sum(data) / len(data)\<close>.\<close>

definition nonzero_readings :: "pyval \<Rightarrow> string \<Rightarrow> exn + pyval list" where
  "nonzero_readings board key =
     ebind (subscr_str board key) (\<lambda>v.
     ebind (py_iter v) (\<lambda>xs.
     Inr (filter (\<lambda>x. \<not> eq_zero x) xs)))"

definition average :: "pyval list \<Rightarrow> exn + pyval" where
  "average xs = ebind (py_sum xs) (\<lambda>s. py_truediv s (int (length xs)))"

definition stmt_hashrate :: "pyval \<Rightarrow> hashboard list \<Rightarrow> exn + hashboard list" where
  "stmt_hashrate board hs =
     ebind (subscr_str board ''rate_real'') (\<lambda>r.
     ebind (py_truediv r 1000) (\<lambda>q.
     ebind (py_round2 q) (\<lambda>v.
     set_board hs board (\<lambda>h. h\<lparr>hashrate := v\<rparr>))))"

definition stmt_chips :: "pyval \<Rightarrow> hashboard list \<Rightarrow> exn + hashboard list" where
  "stmt_chips board hs =
     ebind (subscr_str board ''asic_num'') (\<lambda>v.
     set_board hs board (\<lambda>h. h\<lparr>chips := v\<rparr>))"

definition stmt_temp :: "pyval \<Rightarrow> hashboard list \<Rightarrow> exn + hashboard list" where
  "stmt_temp board hs =
     ebind (nonzero_readings board ''temp_pcb'') (\<lambda>board_temp_data.
     ebind (average board_temp_data) (\<lambda>v.
     set_board hs board (\<lambda>h. h\<lparr>temp := v\<rparr>)))"

definition stmt_chip_temp :: "pyval \<Rightarrow> hashboard list \<Rightarrow> exn + hashboard list" where
  "stmt_chip_temp board hs =
     ebind (nonzero_readings board ''temp_chip'') (\<lambda>chip_temp_data.
     ebind (average chip_temp_data) (\<lambda>v.
     set_board hs board (\<lambda>h. h\<lparr>chip_temp := v\<rparr>)))"

definition stmt_serial :: "pyval \<Rightarrow> hashboard list \<Rightarrow> exn + hashboard list" where
  "stmt_serial board hs =
     ebind (subscr_str board ''sn'') (\<lambda>v.
     set_board hs board (\<lambda>h. h\<lparr>serial_number := v\<rparr>))"

definition stmt_missing :: "pyval \<Rightarrow> hashboard list \<Rightarrow> exn + hashboard list" where
  "stmt_missing board hs = set_board hs board (\<lambda>h. h\<lparr>missing := False\<rparr>)"

text \<open>A block of statements on a mutable state: it stops at the first statement that
  raises and keeps what the earlier ones stored.\<close>

fun run_stmts :: "('s \<Rightarrow> exn + 's) list \<Rightarrow> 's \<Rightarrow> exn option \<times> 's" where
  "run_stmts [] s = (None, s)"
| "run_stmts (f # fs) s = (case f s of Inl e \<Rightarrow> (Some e, s) | Inr s' \<Rightarrow> run_stmts fs s')"

definition chain_body :: "pyval \<Rightarrow> hashboard list \<Rightarrow> exn option \<times> hashboard list" where
  "chain_body board hs =
     run_stmts
       [stmt_hashrate board, stmt_chips board, stmt_temp board, stmt_chip_temp board,
        stmt_serial board, stmt_missing board] hs"

text \<open>\<open>for board in api_stats["STATS"][0]["chain"]\<close>.\<close>

fun for_chain :: "pyval list \<Rightarrow> hashboard list \<Rightarrow> exn option \<times> hashboard list" where
  "for_chain [] hs = (None, hs)"
| "for_chain (board # rest) hs =
     (case chain_body board hs of
        (Some e, hs') \<Rightarrow> (Some e, hs')
      | (None, hs') \<Rightarrow> for_chain rest hs')"

definition stats_chain :: "pyval \<Rightarrow> exn + pyval list" where
  "stats_chain api_stats =
     ebind (subscr_str api_stats ''STATS'') (\<lambda>stats.
     ebind (subscr_int stats 0) (\<lambda>s0.
     ebind (subscr_str s0 ''chain'') py_iter))"

text \<open>
  \<open>AntminerModern._get_hashboards\<close>. \<open>send_stats\<close> is the outcome of
  \<open>self.api.send_command("stats", new_api=True)\<close>: the payload, or the exception the
  call raised. Only \<open>APIError\<close> is caught around the call and only \<open>LookupError\<close>
  around the loop; any other exception leaves the function (\<open>Inl\<close>).
\<close>

definition modern_get_hashboards :: "nat \<Rightarrow> int \<Rightarrow> exn + pyval \<Rightarrow> exn + hashboard list" where
  "modern_get_hashboards expected_hashboards expected_chips' send_stats =
     (let hashboards = map (\<lambda>idx. HashBoard (int idx) expected_chips') [0..<expected_hashboards]
      in case send_stats of
           Inl e \<Rightarrow> if e = APIError then Inr hashboards else Inl e
         | Inr api_stats \<Rightarrow>
             if truthy api_stats then
               (case stats_chain api_stats of
                  Inl e \<Rightarrow> if is_LookupError e then Inr hashboards else Inl e
                | Inr chain \<Rightarrow>
                    (case for_chain chain hashboards of
                       (None, hs) \<Rightarrow> Inr hs
                     | (Some e, hs) \<Rightarrow> if is_LookupError e then Inr hs else Inl e))
             else Inr hashboards)"

subsection \<open>The payload argument of an extractor\<close>

text \<open>
  Every extractor with a payload parameter starts with
  \<^verbatim>\<open>if not arg: try: arg = await call() except APIError: pass\<close>.
  \<open>call\<close> is the outcome of the transport call, were it made.
\<close>

definition or_fetch :: "pyval \<Rightarrow> exn + pyval \<Rightarrow> exn + pyval" where
  "or_fetch arg call =
     (if truthy arg then Inr arg
      else case call of
             Inl e \<Rightarrow> if e = APIError then Inr arg else Inl e
           | Inr v \<Rightarrow> Inr v)"

subsection \<open>\<open>_get_expected_hashrate\<close>\<close>




subsection \<open>\<open>_get_mac\<close>\<close>

text \<open>\<open>system_info\<close> and \<open>network_info\<close> are the outcomes of
  \<open>self.web.get_system_info()\<close> and \<open>self.web.get_network_info()\<close>. The second call is
  guarded by \<open>except KeyError\<close> alone.\<close>

definition modern_get_mac :: "pyval \<Rightarrow> exn + pyval \<Rightarrow> exn + pyval \<Rightarrow> exn + pyval" where
  "modern_get_mac web_get_system_info0 system_info network_info =
     ebind (or_fetch web_get_system_info0 system_info) (\<lambda>web_get_system_info.
     case (if truthy web_get_system_info
           then (case subscr_str web_get_system_info ''macaddr'' of
                   Inl e \<Rightarrow> if e = KeyError then Inr None else Inl e
                 | Inr v \<Rightarrow> Inr (Some v))
           else Inr None) of
       Inl e \<Rightarrow> Inl e
     | Inr (Some v) \<Rightarrow> Inr v
     | Inr None \<Rightarrow>
         (case ebind network_info
                 (\<lambda>data'. if truthy data' then subscr_str data' ''macaddr'' else Inr PNone) of
            Inl e \<Rightarrow> if e = KeyError then Inr PNone else Inl e
          | Inr v \<Rightarrow> Inr v))"

subsection \<open>The fault light\<close>

text \<open>
  The device handle holds the cached light state \<open>self.light\<close>. \<open>web_log\<close> records
  the commands sent over the web channel, in order; it is how a theorem can say that no
  query was issued.
\<close>

record miner =
  light :: pyval
  web_log :: "string list"

text \<open>\<open>blink\<close> is the outcome of \<open>self.web.blink(blink=True)\<close>.\<close>

definition modern_fault_light_on :: "exn + pyval \<Rightarrow> miner \<Rightarrow> (exn + pyval) \<times> miner" where
  "modern_fault_light_on blink m =
     (let m1 = m\<lparr>web_log := web_log m @ [''blink'']\<rparr>
      in case blink of
           Inl e \<Rightarrow> (Inl e, m1)
         | Inr data' \<Rightarrow>
             if truthy data' then
               (case py_get data' ''code'' PNone of
                  Inl e \<Rightarrow> (Inl e, m1)
                | Inr code \<Rightarrow>
                    (let m2 = (if code = PStr ''B000'' then m1\<lparr>light := PBool True\<rparr> else m1)
                     in (Inr (light m2), m2)))
             else (Inr (light m1), m1))"

text \<open>\<open>blink_status\<close> is the outcome of \<open>self.web.get_blink_status()\<close>, asked only
  when the light is not known to be on and no payload came with the call.\<close>

definition modern_get_fault_light ::
  "pyval \<Rightarrow> exn + pyval \<Rightarrow> miner \<Rightarrow> (exn + pyval) \<times> miner" where
  "modern_get_fault_light web_get_blink_status0 blink_status m =
     (if truthy (light m) then (Inr (light m), m)
      else
        (let m1 = (if truthy web_get_blink_status0 then m
                   else m\<lparr>web_log := web_log m @ [''get_blink_status'']\<rparr>)
         in case or_fetch web_get_blink_status0 blink_status of
              Inl e \<Rightarrow> (Inl e, m1)
            | Inr web_get_blink_status \<Rightarrow>
                if truthy web_get_blink_status then
                  (case subscr_str web_get_blink_status ''blink'' of
                     Inl e \<Rightarrow> if e = KeyError then (Inr (light m1), m1) else (Inl e, m1)
                   | Inr v \<Rightarrow> (Inr v, m1\<lparr>light := v\<rparr>))
                else (Inr (light m1), m1)))"

text \<open>A run of FAULT\_LIGHT reads, each with its own argument and transport outcome;
  it returns what each read returned.\<close>

fun fault_light_reads ::
  "(pyval \<times> (exn + pyval)) list \<Rightarrow> miner \<Rightarrow> (exn + pyval) list \<times> miner" where
  "fault_light_reads [] m = ([], m)"
| "fault_light_reads (q # qs) m =
     (case modern_get_fault_light (fst q) (snd q) m of
        (r, m') \<Rightarrow> (case fault_light_reads qs m' of (rs, m'') \<Rightarrow> (r # rs, m'')))"

section \<open>AntminerOld\<close>

text \<open>\<open>range(start, stop, step)\<close> with a positive step.\<close>

definition py_range3 :: "nat \<Rightarrow> nat \<Rightarrow> nat \<Rightarrow> nat list" where
  "py_range3 start stop step =
     map (\<lambda>k. start + k * step) [0..<(stop - start + step - 1) div step]"

definition str_int :: "int \<Rightarrow> string" where
  "str_int i = (if i < 0 then CHR ''-'' # str_nat (nat (- i)) else str_nat (nat i))"

text \<open>The probe of both resolvers: \<open>v and not v == 0\<close>.\<close>

definition probe :: "pyval \<Rightarrow> bool" where
  "probe v = (truthy v \<and> \<not> eq_zero v)"

subsection \<open>\<open>_get_fans\<close>\<close>

text \<open>
  \<open>api_stats["STATS"][1]\<close> is the same object wherever the function evaluates it, so
  it is taken once: it raises at the first probe or never. Both nested iterations leave
  \<open>fan_offset\<close> at \<open>-1\<close> or at the value the first successful probe gave it.
\<close>

definition fan_offset_scan :: "(string \<times> pyval) list \<Rightarrow> int" where
  "fan_offset_scan d =
     fold (\<lambda>fan_num fan_offset.
       fold (\<lambda>f_num fan_offset.
         (let f = dget d (''fan'' @ str_int (int fan_num + int f_num)) PNone
          in if probe f \<and> fan_offset = - 1 then int fan_num + 2 else fan_offset))
         [0..<4] fan_offset)
       (py_range3 1 8 4) (- 1)"

definition fan_offset_of :: "(string \<times> pyval) list \<Rightarrow> int" where
  "fan_offset_of d = (let fan_offset = fan_offset_scan d in if fan_offset = - 1 then 3 else fan_offset)"

definition old_get_fans :: "nat \<Rightarrow> pyval \<Rightarrow> exn + pyval \<Rightarrow> exn + fan list" where
  "old_get_fans expected_fans api_stats0 stats_call =
     ebind (or_fetch api_stats0 stats_call) (\<lambda>api_stats.
     let fans_data = replicate expected_fans Fan
     in if truthy api_stats then
          (case ebind (ebind (subscr_str api_stats ''STATS'') (\<lambda>s. subscr_int s 1)) as_dict of
             Inl e \<Rightarrow> if e = KeyError \<or> e = IndexError then Inr fans_data else Inl e
           | Inr d \<Rightarrow>
               (let fan_offset = fan_offset_of d
                in Inr (map (\<lambda>fan'. (fans_data ! fan')
                              \<lparr>speed := dget d (''fan'' @ str_int (fan_offset + int fan')) (PInt 0)\<rparr>)
                         [0..<expected_fans])))
        else Inr fans_data)"

subsection \<open>\<open>_get_hashboards\<close>\<close>

definition board_offset_scan :: "(string \<times> pyval) list \<Rightarrow> int" where
  "board_offset_scan d =
     fold (\<lambda>board_num board_offset.
       fold (\<lambda>b_num board_offset.
         (let b = dget d (''chain_acn'' @ str_int (int board_num + int b_num)) PNone
          in if probe b \<and> board_offset = - 1 then int board_num else board_offset))
         [0..<5] board_offset)
       (py_range3 1 16 5) (- 1)"

definition board_offset_of :: "(string \<times> pyval) list \<Rightarrow> int" where
  "board_offset_of d =
     (let board_offset = board_offset_scan d in if board_offset = - 1 then 1 else board_offset)"

text \<open>The body of the extraction loop for the key suffix \<open>i\<close>: the board it appends, or
  the exception it raises before appending.\<close>

definition old_board ::
  "(string \<Rightarrow> rat option) \<Rightarrow> int \<Rightarrow> (string \<times> pyval) list \<Rightarrow> int \<Rightarrow> int \<Rightarrow> exn + hashboard" where
  "old_board str_float expected_chips' d board_offset i =
     (let hashboard = HashBoard (i - board_offset) expected_chips';
          chip_temp' = dget d (''temp'' @ str_int i) PNone
      in ebind (if truthy chip_temp'
                then ebind (py_round chip_temp') (\<lambda>v. Inr (hashboard\<lparr>chip_temp := v\<rparr>))
                else Inr hashboard) (\<lambda>hb1.
         let temp' = dget d (''temp2_'' @ str_int i) PNone
         in ebind (if truthy temp'
                   then ebind (py_round temp') (\<lambda>v. Inr (hb1\<lparr>temp := v\<rparr>))
                   else Inr hb1) (\<lambda>hb2.
         let hashrate' = dget d (''chain_rate'' @ str_int i) PNone
         in ebind (if truthy hashrate'
                   then ebind (py_float str_float hashrate') (\<lambda>f.
                        ebind (py_truediv f 1000) (\<lambda>q.
                        ebind (py_round2 q) (\<lambda>v. Inr (hb2\<lparr>hashrate := v\<rparr>))))
                   else Inr hb2) (\<lambda>hb3.
         let chips' = dget d (''chain_acn'' @ str_int i) PNone;
             hb4 = (if truthy chips' then hb3\<lparr>chips := chips', missing := False\<rparr> else hb3)
         in ebind (if \<not> truthy chips' then Inr True
                   else ebind (py_gt_zero chips') (\<lambda>g. Inr (\<not> g))) (\<lambda>c.
         Inr (if c then hb4\<lparr>missing := True\<rparr> else hb4))))))"

fun old_boards_loop ::
  "(string \<Rightarrow> rat option) \<Rightarrow> int \<Rightarrow> (string \<times> pyval) list \<Rightarrow> int \<Rightarrow> int list \<Rightarrow>
   hashboard list \<Rightarrow> exn option \<times> hashboard list" where
  "old_boards_loop str_float ec d board_offset [] hashboards = (None, hashboards)"
| "old_boards_loop str_float ec d board_offset (i # rest) hashboards =
     (case old_board str_float ec d board_offset i of
        Inl e \<Rightarrow> (Some e, hashboards)
      | Inr hashboard \<Rightarrow> old_boards_loop str_float ec d board_offset rest (hashboards @ [hashboard]))"

text \<open>The \<open>try\<close> block: the exception that ended it, if any, and the list as it stands.\<close>

definition old_hashboards_try ::
  "(string \<Rightarrow> rat option) \<Rightarrow> nat \<Rightarrow> int \<Rightarrow> pyval \<Rightarrow> exn option \<times> hashboard list" where
  "old_hashboards_try str_float expected_hashboards expected_chips' api_stats =
     (case subscr_str api_stats ''STATS'' of
        Inl e \<Rightarrow> (Some e, [])
      | Inr boards \<Rightarrow>
          (case py_len boards of
             Inl e \<Rightarrow> (Some e, [])
           | Inr n \<Rightarrow>
               if 1 < n then
                 (case ebind (subscr_int boards 1) as_dict of
                    Inl e \<Rightarrow> (Some e, [])
                  | Inr d \<Rightarrow>
                      (let board_offset = board_offset_of d
                       in old_boards_loop str_float expected_chips' d board_offset
                            (map (\<lambda>k. board_offset + int k) [0..<expected_hashboards]) []))
               else (None, [])))"

definition old_caught :: "exn \<Rightarrow> bool" where
  "old_caught e = (e = IndexError \<or> e = KeyError \<or> e = ValueError \<or> e = TypeError)"

definition old_get_hashboards ::
  "(string \<Rightarrow> rat option) \<Rightarrow> nat \<Rightarrow> int \<Rightarrow> pyval \<Rightarrow> exn + pyval \<Rightarrow> exn + hashboard list" where
  "old_get_hashboards str_float expected_hashboards expected_chips' api_stats0 stats_call =
     ebind (or_fetch api_stats0 stats_call) (\<lambda>api_stats.
     if truthy api_stats then
       (case old_hashboards_try str_float expected_hashboards expected_chips' api_stats of
          (None, hashboards) \<Rightarrow> Inr hashboards
        | (Some e, hashboards) \<Rightarrow> if old_caught e then Inr hashboards else Inl e)
     else Inr [])"

subsection \<open>\<open>_get_mac\<close> and \<open>_is_mining\<close>\<close>

definition old_get_mac :: "exn + pyval \<Rightarrow> exn + pyval" where
  "old_get_mac system_info =
     (case ebind system_info
             (\<lambda>data'. if truthy data' then subscr_str data' ''macaddr'' else Inr PNone) of
        Inl e \<Rightarrow> if e = KeyError then Inr PNone else Inl e
      | Inr v \<Rightarrow> Inr v)"

text \<open>\<open>int(x)\<close>. Parsing a string is Python's own; it is the parameter \<open>str_to_int\<close>
  (\<open>None\<close> where \<open>int\<close> raises \<open>ValueError\<close>). A float is truncated towards zero.\<close>

fun py_int :: "(string \<Rightarrow> int option) \<Rightarrow> pyval \<Rightarrow> exn + int" where
  "py_int str_to_int (PInt a) = Inr a"
| "py_int str_to_int (PBool b) = Inr (if b then 1 else 0)"
| "py_int str_to_int (PFloat q) = Inr (if 0 \<le> q then \<lfloor>q\<rfloor> else \<lceil>q\<rceil>)"
| "py_int str_to_int (PStr s) = (case str_to_int s of None \<Rightarrow> Inl ValueError | Some a \<Rightarrow> Inr a)"
| "py_int str_to_int _ = Inl TypeError"

text \<open>\<open>summary\<close> is the outcome of \<open>self.api.summary()\<close>.\<close>

definition old_is_mining ::
  "(string \<Rightarrow> int option) \<Rightarrow> pyval \<Rightarrow> exn + pyval \<Rightarrow> exn + pyval \<Rightarrow> exn + pyval" where
  "old_is_mining str_to_int web_get_conf0 miner_conf summary =
     ebind (or_fetch web_get_conf0 miner_conf) (\<lambda>web_get_conf.
     case (if truthy web_get_conf
           then (case ebind (subscr_str web_get_conf ''bitmain-work-mode'') (py_int str_to_int) of
                   Inl e \<Rightarrow> if is_LookupError e then Inr None else Inl e
                 | Inr mode \<Rightarrow> Inr (Some (PBool (mode \<noteq> 1))))
           else Inr None) of
       Inl e \<Rightarrow> Inl e
     | Inr (Some v) \<Rightarrow> Inr v
     | Inr None \<Rightarrow>
         (case summary of
            Inl e \<Rightarrow> if e = APIError then Inr PNone else Inl e
          | Inr api_summary \<Rightarrow>
              if api_summary \<noteq> PNone then Inr (PBool (api_summary \<noteq> PDict [])) else Inr PNone))"

section \<open>Notions the properties are stated with\<close>



text \<open>
  The resolver as the specification words it: among the candidate start offsets, in
  order, the first one with a non-zero value among the \<open>stride\<close> keys from it on is the
  offset; with no such candidate the offset is the default.
\<close>

definition first_candidate ::
  "string \<Rightarrow> nat list \<Rightarrow> nat \<Rightarrow> (string \<times> pyval) list \<Rightarrow> nat option" where
  "first_candidate prefix candidates stride d =
     find (\<lambda>c. list_ex (\<lambda>j. probe (dget d (prefix @ str_int (int c + int j)) PNone)) [0..<stride])
       candidates"

definition spec_resolver ::
  "string \<Rightarrow> nat list \<Rightarrow> nat \<Rightarrow> int \<Rightarrow> (string \<times> pyval) list \<Rightarrow> int" where
  "spec_resolver prefix candidates stride dflt d =
     (case first_candidate prefix candidates stride d of Some c \<Rightarrow> int c | None \<Rightarrow> dflt)"

section \<open>Sample payloads\<close>

text \<open>The chain record of the specification's end-to-end scenario, and two variants of
  it: one whose board temperature array holds only zero readings, one without the \<open>sn\<close>
  field.\<close>

definition scenario_record :: pyval where
  "scenario_record =
     PDict [(''index'', PInt 0), (''rate_real'', PInt 15000), (''asic_num'', PInt 80),
            (''temp_pcb'', PList [PInt 0, PInt 55, PInt 57, PInt 0]),
            (''temp_chip'', PList [PInt 0, PInt 70, PInt 71, PInt 0]),
            (''sn'', PStr ''ABC123'')]"

definition zero_pcb_record :: pyval where
  "zero_pcb_record =
     PDict [(''index'', PInt 0), (''rate_real'', PInt 15000), (''asic_num'', PInt 80),
            (''temp_pcb'', PList [PInt 0, PInt 0, PInt 0, PInt 0]),
            (''temp_chip'', PList [PInt 0, PInt 70, PInt 71, PInt 0]),
            (''sn'', PStr ''ABC123'')]"


definition modern_stats :: "pyval list \<Rightarrow> pyval" where
  "modern_stats chain = PDict [(''STATS'', PList [PDict [(''chain'', PList chain)]])]"

text \<open>A flat Legacy response: \<open>STATS[0]\<close> is the header, \<open>STATS[1]\<close> the key/value dump.\<close>

definition legacy_stats :: "(string \<times> pyval) list \<Rightarrow> pyval" where
  "legacy_stats d = PDict [(''STATS'', PList [PDict [(''Type'', PStr ''Antminer S9'')], PDict d])]"

text \<open>A dump whose boards sit at the key suffixes 6, 7 and 8; the third reports no chips.\<close>

definition dump_at_6 :: "(string \<times> pyval) list" where
  "dump_at_6 =
     [(''chain_acn6'', PInt 63), (''chain_acn7'', PInt 63), (''chain_acn8'', PInt 0),
      (''temp6'', PInt 61), (''temp2_6'', PFloat 70.4), (''chain_rate6'', PFloat 4523.12),
      (''temp7'', PInt 60), (''chain_rate7'', PStr [])]"

text \<open>A dump whose only non-zero \<open>chain_acn\<close> keys form a group starting at suffix 11, and
  a dump in which every probed key is zero or absent.\<close>

definition dump_at_11 :: "(string \<times> pyval) list" where
  "dump_at_11 =
     [(''chain_acn1'', PInt 0), (''chain_acn2'', PInt 0), (''chain_acn3'', PInt 0),
      (''chain_acn11'', PInt 63), (''chain_acn12'', PInt 62), (''chain_acn13'', PInt 61),
      (''temp11'', PInt 58), (''temp12'', PInt 60), (''temp13'', PInt 59),
      (''chain_rate11'', PFloat 4500), (''chain_rate12'', PFloat 4400),
      (''chain_rate13'', PFloat 4300)]"

definition dump_all_zero :: "(string \<times> pyval) list" where
  "dump_all_zero =
     [(''chain_acn1'', PInt 0), (''chain_acn2'', PInt 0), (''chain_acn3'', PInt 0),
      (''fan1'', PInt 0), (''fan2'', PInt 0), (''fan3'', PInt 0), (''fan4'', PInt 0)]"

text \<open>A dump whose fans report at the keys \<open>fan1\<close> and \<open>fan2\<close>.\<close>

definition fans_at_1 :: "(string \<times> pyval) list" where
  "fans_at_1 = [(''fan1'', PInt 6000), (''fan2'', PInt 5880)]"


section \<open>Basic facts\<close>

lemma ebind_Inr_iff: "ebind m f = Inr y \<longleftrightarrow> (\<exists>x. m = Inr x \<and> f x = Inr y)"
  by (cases m) simp_all
























section \<open>The Modern hashboard loop\<close>

lemma default_boards:
  "length (map (\<lambda>idx. HashBoard (int idx) ec) [0..<eh]) = eh"
  "k < eh \<Longrightarrow> missing (map (\<lambda>idx. HashBoard (int idx) ec) [0..<eh] ! k)"
  by (simp_all add: HashBoard_def)


lemmas modern_defs = modern_get_hashboards_def stats_chain_def chain_body_def stmt_hashrate_def
    stmt_chips_def stmt_temp_def stmt_chip_temp_def stmt_serial_def stmt_missing_def set_board_def
    board_index_def nonzero_readings_def average_def py_sum_def HashBoard_def int_index_def
    round_half_even_def round2_def is_LookupError_def

text \<open>
  C3. With \<open>expected_hashboards = 3\<close> and \<open>expected_chips = 80\<close>, a stats payload
  whose \<open>STATS[0]["chain"]\<close> holds the scenario's single record yields three boards:
  slot 0 with hashrate 15.0, 80 chips, board temperature 56.0, chip temperature 70.5,
  serial number "ABC123" and \<open>missing = False\<close>; slots 1 and 2 are the default boards,
  with \<open>missing = True\<close>. Whatever else the payload carries (\<open>others0\<close>, \<open>stats_rest\<close>,
  \<open>others\<close>) does not matter.
\<close>

theorem modern_hashboards_scenario:
  "modern_get_hashboards 3 80
     (Inr (PDict ((''STATS'', PList (PDict ((''chain'', PList [scenario_record]) # others0) # stats_rest))
                  # others)))
   = Inr [\<lparr>slot = 0, hashrate = PFloat 15.0, temp = PFloat 56.0, chip_temp = PFloat 70.5,
            chips = PInt 80, expected_chips = 80, serial_number = PStr ''ABC123'',
            missing = False\<rparr>,
          HashBoard 1 80, HashBoard 2 80]
   \<and> missing (HashBoard 1 80) \<and> missing (HashBoard 2 80)"
  by (simp add: modern_defs scenario_record_def upt_rec)

text \<open>
  C8. A chain record whose \<open>temp_pcb\<close> array holds only zero readings: the filtered list
  is empty, \<open>sum([]) / len([])\<close> raises \<open>ZeroDivisionError\<close>, which \<open>except LookupError\<close>
  does not catch, and the exception leaves \<open>_get_hashboards\<close>: no hashboard sequence
  is returned.
\<close>

theorem all_zero_temps_raise:
  "modern_get_hashboards 3 80 (Inr (modern_stats [zero_pcb_record])) = Inl ZeroDivisionError"
  by (simp add: modern_defs modern_stats_def zero_pcb_record_def upt_rec)




section \<open>The Legacy hashboard loop\<close>

lemma old_board_Inr:
  assumes "old_board sf ec d off i = Inr hb"
  shows "slot hb = i - off"
    and "\<not> missing hb \<Longrightarrow> truthy (chips hb) \<and> py_gt_zero (chips hb) = Inr True"
    and "chips hb = (if truthy (dget d (''chain_acn'' @ str_int i) PNone)
                     then dget d (''chain_acn'' @ str_int i) PNone else PNone)"
proof -
  define h0 where "h0 = HashBoard (i - off) ec"
  define cv where "cv = dget d (''chain_acn'' @ str_int i) PNone"
  from assms obtain hb1 hb2 hb3 c where
    s1: "(if truthy (dget d (''temp'' @ str_int i) PNone)
          then ebind (py_round (dget d (''temp'' @ str_int i) PNone)) (\<lambda>v. Inr (h0\<lparr>chip_temp := v\<rparr>))
          else Inr h0) = Inr hb1" and
    s2: "(if truthy (dget d (''temp2_'' @ str_int i) PNone)
          then ebind (py_round (dget d (''temp2_'' @ str_int i) PNone)) (\<lambda>v. Inr (hb1\<lparr>temp := v\<rparr>))
          else Inr hb1) = Inr hb2" and
    s3: "(if truthy (dget d (''chain_rate'' @ str_int i) PNone)
          then ebind (py_float sf (dget d (''chain_rate'' @ str_int i) PNone)) (\<lambda>f.
               ebind (py_truediv f 1000) (\<lambda>q.
               ebind (py_round2 q) (\<lambda>v. Inr (hb2\<lparr>hashrate := v\<rparr>))))
          else Inr hb2) = Inr hb3" and
    s4: "(if \<not> truthy cv then Inr True else ebind (py_gt_zero cv) (\<lambda>g. Inr (\<not> g))) = Inr c" and
    s5: "hb = (if c then (if truthy cv then hb3\<lparr>chips := cv, missing := False\<rparr> else hb3)\<lparr>missing := True\<rparr>
               else (if truthy cv then hb3\<lparr>chips := cv, missing := False\<rparr> else hb3))"
    unfolding old_board_def Let_def ebind_Inr_iff h0_def cv_def by blast
  have p0: "slot h0 = i - off \<and> chips h0 = PNone \<and> missing h0"
    by (simp add: h0_def HashBoard_def)
  from s1 have e1: "slot hb1 = slot h0 \<and> chips hb1 = chips h0 \<and> missing hb1 = missing h0"
    by (cases "truthy (dget d (''temp'' @ str_int i) PNone)") (auto simp: ebind_Inr_iff)
  from s2 have e2: "slot hb2 = slot hb1 \<and> chips hb2 = chips hb1 \<and> missing hb2 = missing hb1"
    by (cases "truthy (dget d (''temp2_'' @ str_int i) PNone)") (auto simp: ebind_Inr_iff)
  from s3 have e3: "slot hb3 = slot hb2 \<and> chips hb3 = chips hb2 \<and> missing hb3 = missing hb2"
    by (cases "truthy (dget d (''chain_rate'' @ str_int i) PNone)") (auto simp: ebind_Inr_iff)
  have p3: "slot hb3 = i - off" "chips hb3 = PNone" "missing hb3"
    using p0 e1 e2 e3 by simp_all
  show "slot hb = i - off"
    using s5 p3 by (simp split: if_splits)
  show "chips hb = (if truthy (dget d (''chain_acn'' @ str_int i) PNone)
                     then dget d (''chain_acn'' @ str_int i) PNone else PNone)"
    using s5 p3 by (simp add: cv_def split: if_splits)
  show "truthy (chips hb) \<and> py_gt_zero (chips hb) = Inr True" if "\<not> missing hb"
  proof (cases "truthy cv")
    case True
    with s4 obtain g where g: "py_gt_zero cv = Inr g" "c = (\<not> g)"
      by (auto simp: ebind_Inr_iff)
    with s5 True p3 that show ?thesis by (cases c) simp_all
  next
    case False
    with s4 s5 p3 that show ?thesis by simp
  qed
qed

lemma old_boards_loop_result:
  "old_boards_loop sf ec d off is acc = (r, hs) \<Longrightarrow>
     \<exists>bs. hs = acc @ bs \<and> length bs \<le> length is \<and>
          (\<forall>j<length bs. old_board sf ec d off (is ! j) = Inr (bs ! j)) \<and>
          (r = None \<longrightarrow> length bs = length is)"
proof (induction "is" arbitrary: acc)
  case Nil
  then show ?case by simp
next
  case (Cons i rest)
  show ?case
  proof (cases "old_board sf ec d off i")
    case (Inl e)
    with Cons.prems show ?thesis by auto
  next
    case (Inr hb)
    with Cons.prems have "old_boards_loop sf ec d off rest (acc @ [hb]) = (r, hs)" by simp
    from Cons.IH [OF this] obtain bs where
      bs: "hs = (acc @ [hb]) @ bs" "length bs \<le> length rest"
          "\<forall>j<length bs. old_board sf ec d off (rest ! j) = Inr (bs ! j)"
          "r = None \<longrightarrow> length bs = length rest"
      by blast
    have "\<forall>j<length (hb # bs). old_board sf ec d off ((i # rest) ! j) = Inr ((hb # bs) ! j)"
      using bs(3) Inr by (auto simp: nth_Cons split: nat.splits)
    with bs show ?thesis
      by (intro exI [of _ "hb # bs"]) simp
  qed
qed

lemma old_hashboards_try_result:
  assumes "old_hashboards_try sf eh ec api_stats = (r, hs)"
  shows "hs = [] \<or>
         (\<exists>d off. old_boards_loop sf ec d off (map (\<lambda>k. off + int k) [0..<eh]) [] = (r, hs))"
proof (cases "subscr_str api_stats ''STATS''")
  case (Inl e)
  with assms show ?thesis by (simp add: old_hashboards_try_def)
next
  case s: (Inr boards)
  show ?thesis
  proof (cases "py_len boards")
    case (Inl e)
    with assms s show ?thesis by (simp add: old_hashboards_try_def)
  next
    case n: (Inr n)
    show ?thesis
    proof (cases "ebind (subscr_int boards 1) as_dict")
      case (Inl e)
      with assms s n show ?thesis by (simp add: old_hashboards_try_def split: if_splits)
    next
      case (Inr d)
      with assms s n show ?thesis
        by (auto simp: old_hashboards_try_def Let_def split: if_splits)
    qed
  qed
qed

lemma old_get_hashboards_Inr:
  assumes "old_get_hashboards sf eh ec a c = Inr hs"
  shows "length hs \<le> eh \<and>
         (\<exists>d off. \<forall>j<length hs. old_board sf ec d off (off + int j) = Inr (hs ! j))"
proof (cases "hs = []")
  case True
  then show ?thesis by simp
next
  case False
  from assms obtain api_stats where
    t: "(if truthy api_stats then
          (case old_hashboards_try sf eh ec api_stats of
             (None, hashboards) \<Rightarrow> Inr hashboards
           | (Some e, hashboards) \<Rightarrow> if old_caught e then Inr hashboards else Inl e)
        else Inr []) = Inr hs"
    unfolding old_get_hashboards_def ebind_Inr_iff by blast
  obtain r hs' where r: "old_hashboards_try sf eh ec api_stats = (r, hs')"
    by (cases "old_hashboards_try sf eh ec api_stats")
  with t False have "hs' = hs"
    by (auto split: if_splits option.splits)
  with old_hashboards_try_result [OF r] False obtain d off where
    "old_boards_loop sf ec d off (map (\<lambda>k. off + int k) [0..<eh]) [] = (r, hs)"
    by blast
  from old_boards_loop_result [OF this] obtain bs where
    "hs = [] @ bs" "length bs \<le> length (map (\<lambda>k. off + int k) [0..<eh])"
    "\<forall>j<length bs. old_board sf ec d off (map (\<lambda>k. off + int k) [0..<eh] ! j) = Inr (bs ! j)"
    by blast
  then have "length hs \<le> eh" "\<forall>j<length hs. old_board sf ec d off (off + int j) = Inr (hs ! j)"
    by auto
  then show ?thesis by blast
qed

lemma dump_at_6_boards:
  "old_get_hashboards Map.empty 3 63 (legacy_stats dump_at_6) (Inl APIError) =
     Inr [\<lparr>slot = 0, hashrate = PFloat 4.52, temp = PInt 70, chip_temp = PInt 61,
            chips = PInt 63, expected_chips = 63, serial_number = PNone, missing = False\<rparr>,
          \<lparr>slot = 1, hashrate = PNone, temp = PNone, chip_temp = PInt 60,
            chips = PInt 63, expected_chips = 63, serial_number = PNone, missing = False\<rparr>,
          \<lparr>slot = 2, hashrate = PNone, temp = PNone, chip_temp = PNone,
            chips = PNone, expected_chips = 63, serial_number = PNone, missing = True\<rparr>]"
  by code_simp

text \<open>
  C10. Whenever the Legacy extraction returns, the boards it returns carry the slot
  numbers 0, 1, ..., in order: the slot is the position relative to the resolved offset,
  whatever that offset is.
\<close>

theorem legacy_slots_consecutive:
  "old_get_hashboards str_float expected_hashboards ec api_stats stats_call = Inr hs \<Longrightarrow>
     map slot hs = map int [0..<length hs]"
proof -
  assume a: "old_get_hashboards str_float expected_hashboards ec api_stats stats_call = Inr hs"
  from old_get_hashboards_Inr [OF a] obtain d off where
    b: "\<forall>j<length hs. old_board str_float ec d off (off + int j) = Inr (hs ! j)"
    by blast
  show ?thesis
  proof (rule nth_equalityI)
    show "length (map slot hs) = length (map int [0..<length hs])" by simp
  next
    fix j assume "j < length (map slot hs)"
    then have j: "j < length hs" by simp
    with b have "old_board str_float ec d off (off + int j) = Inr (hs ! j)" by blast
    from old_board_Inr(1) [OF this] j show "map slot hs ! j = map int [0..<length hs] ! j"
      by simp
  qed
qed

theorem legacy_slots_consecutive_witness:
  "old_get_hashboards Map.empty 3 63 (legacy_stats dump_at_6) (Inl APIError) =
     Inr [\<lparr>slot = 0, hashrate = PFloat 4.52, temp = PInt 70, chip_temp = PInt 61,
            chips = PInt 63, expected_chips = 63, serial_number = PNone, missing = False\<rparr>,
          \<lparr>slot = 1, hashrate = PNone, temp = PNone, chip_temp = PInt 60,
            chips = PInt 63, expected_chips = 63, serial_number = PNone, missing = False\<rparr>,
          \<lparr>slot = 2, hashrate = PNone, temp = PNone, chip_temp = PNone,
            chips = PNone, expected_chips = 63, serial_number = PNone, missing = True\<rparr>]
   \<and> map slot
        [\<lparr>slot = 0, hashrate = PFloat 4.52, temp = PInt 70, chip_temp = PInt 61,
            chips = PInt 63, expected_chips = 63, serial_number = PNone, missing = False\<rparr>,
          \<lparr>slot = 1, hashrate = PNone, temp = PNone, chip_temp = PInt 60,
            chips = PInt 63, expected_chips = 63, serial_number = PNone, missing = False\<rparr>,
          \<lparr>slot = 2, hashrate = PNone, temp = PNone, chip_temp = PNone,
            chips = PNone, expected_chips = 63, serial_number = PNone, missing = True\<rparr>]
      = map int [0..<length
        [\<lparr>slot = 0, hashrate = PFloat 4.52, temp = PInt 70, chip_temp = PInt 61,
            chips = PInt 63, expected_chips = 63, serial_number = PNone, missing = False\<rparr>,
          \<lparr>slot = 1, hashrate = PNone, temp = PNone, chip_temp = PInt 60,
            chips = PInt 63, expected_chips = 63, serial_number = PNone, missing = False\<rparr>,
          \<lparr>slot = 2, hashrate = PNone, temp = PNone, chip_temp = PNone,
            chips = PNone, expected_chips = 63, serial_number = PNone, missing = True\<rparr>]]"
  using legacy_slots_consecutive [OF dump_at_6_boards] dump_at_6_boards
  by simp

section \<open>The length of the hashboard sequence\<close>




section \<open>The offset resolvers\<close>

lemma fold_probe_inner:
  "fold (\<lambda>j off. if P j \<and> off = - 1 then v else off) js (off::int) =
     (if off = - 1 \<and> list_ex P js then v else off)"
  by (induction js arbitrary: off) auto

lemma fold_candidates:
  assumes "\<forall>c\<in>set cs. v c \<noteq> (- 1::int)"
  shows "fold (\<lambda>c off. if off = - 1 \<and> Q c then v c else off) cs off =
           (if off = - 1 then (case find Q cs of Some c \<Rightarrow> v c | None \<Rightarrow> - 1) else off)"
  using assms by (induction cs arbitrary: off) auto

lemma board_offset_scan_find:
  "board_offset_scan d =
     (case first_candidate ''chain_acn'' (py_range3 1 16 5) 5 d of Some c \<Rightarrow> int c | None \<Rightarrow> - 1)"
proof -
  have "board_offset_scan d =
          fold (\<lambda>c off. if off = - 1 \<and>
                   list_ex (\<lambda>j. probe (dget d (''chain_acn'' @ str_int (int c + int j)) PNone)) [0..<5]
                 then int c else off) (py_range3 1 16 5) (- 1)"
    unfolding board_offset_scan_def Let_def fold_probe_inner by (simp add: conj_commute)
  also have "\<dots> = (case find (\<lambda>c. list_ex (\<lambda>j. probe (dget d (''chain_acn'' @ str_int (int c + int j)) PNone)) [0..<5])
                      (py_range3 1 16 5) of Some c \<Rightarrow> int c | None \<Rightarrow> - 1)"
    by (subst fold_candidates) simp_all
  finally show ?thesis by (simp add: first_candidate_def)
qed

lemma fan_offset_scan_find:
  "fan_offset_scan d =
     (case first_candidate ''fan'' (py_range3 1 8 4) 4 d of Some c \<Rightarrow> int c + 2 | None \<Rightarrow> - 1)"
proof -
  have "fan_offset_scan d =
          fold (\<lambda>c off. if off = - 1 \<and>
                   list_ex (\<lambda>j. probe (dget d (''fan'' @ str_int (int c + int j)) PNone)) [0..<4]
                 then int c + 2 else off) (py_range3 1 8 4) (- 1)"
    unfolding fan_offset_scan_def Let_def fold_probe_inner by (simp add: conj_commute)
  also have "\<dots> = (case find (\<lambda>c. list_ex (\<lambda>j. probe (dget d (''fan'' @ str_int (int c + int j)) PNone)) [0..<4])
                      (py_range3 1 8 4) of Some c \<Rightarrow> int c + 2 | None \<Rightarrow> - 1)"
    by (subst fold_candidates) simp_all
  finally show ?thesis by (simp add: first_candidate_def)
qed

lemma board_candidates: "py_range3 1 16 5 = [1, 6, 11]"
  by code_simp

lemma fan_candidates: "py_range3 1 8 4 = [1, 5]"
  by code_simp

lemma first_candidate_Some: "first_candidate p cs n d = Some c \<Longrightarrow> c \<in> set cs"
  unfolding first_candidate_def by (auto simp: find_Some_iff)

lemma board_offset_of_spec:
  "board_offset_of d = spec_resolver ''chain_acn'' [1, 6, 11] 5 1 d"
  unfolding board_offset_of_def Let_def board_offset_scan_find spec_resolver_def board_candidates
  by (auto split: option.splits dest: first_candidate_Some)

lemma fan_offset_of_plus2:
  "fan_offset_of d =
     (case first_candidate ''fan'' [1, 5] 4 d of Some c \<Rightarrow> int c + 2 | None \<Rightarrow> 3)"
  unfolding fan_offset_of_def Let_def fan_offset_scan_find fan_candidates
  by (auto split: option.splits dest: first_candidate_Some)


lemma probe_absent: "probe (dget [] k PNone) = False" "probe PNone = False" "probe (PInt n) = (n \<noteq> 0)"
  by (simp_all add: probe_def dget_def)

lemma old_hashboards_try_dump:
  "old_hashboards_try sf eh ec (PDict ((''STATS'', PList (s0 # PDict d # stats_rest)) # others)) =
     old_boards_loop sf ec d (board_offset_of d) (map (\<lambda>k. board_offset_of d + int k) [0..<eh]) []"
  by (simp add: old_hashboards_try_def Let_def)

lemma old_get_fans_dump:
  "old_get_fans n (PDict ((''STATS'', PList (s0 # PDict d # stats_rest)) # others)) stats_call =
     Inr (map (\<lambda>k. \<lparr>speed = dget d (''fan'' @ str_int (fan_offset_of d + int k)) (PInt 0)\<rparr>) [0..<n])"
  by (simp add: old_get_fans_def or_fetch_def Let_def Fan_def)

lemma group_at_11:
  assumes "\<forall>k\<in>set [1..<11]. \<not> probe (dget d (''chain_acn'' @ str_int (int k)) PNone)"
    and "probe (dget d (''chain_acn'' @ str_int 11) PNone)"
  shows "first_candidate ''chain_acn'' [1, 6, 11] 5 d = Some 11"
proof -
  have z: "\<not> probe (dget d (''chain_acn'' @ str_int (int c + int j)) PNone)"
    if "c = 1 \<or> c = 6" "j < 5" for c j :: nat
  proof -
    from that have "c + j \<in> set [1..<11]" by auto
    with assms(1) have "\<not> probe (dget d (''chain_acn'' @ str_int (int (c + j))) PNone)" by blast
    then show ?thesis by simp
  qed
  have "list_ex (\<lambda>j. probe (dget d (''chain_acn'' @ str_int (int 11 + int j)) PNone)) [0..<5]"
    unfolding list_ex_iff using assms(2) by (intro bexI [of _ 0]) simp_all
  moreover have "\<not> list_ex (\<lambda>j. probe (dget d (''chain_acn'' @ str_int (int 1 + int j)) PNone)) [0..<5]"
    unfolding list_ex_iff using z [of 1] by auto
  moreover have "\<not> list_ex (\<lambda>j. probe (dget d (''chain_acn'' @ str_int (int 6 + int j)) PNone)) [0..<5]"
    unfolding list_ex_iff using z [of 6] by auto
  ultimately show ?thesis
    unfolding first_candidate_def by simp
qed

lemma no_candidate:
  assumes "\<forall>k\<in>set [1..<m]. \<not> probe (dget d (p @ str_int (int k)) PNone)"
    and "\<forall>c\<in>set cs. 1 \<le> c \<and> c + n \<le> m"
  shows "first_candidate p cs n d = None"
proof -
  have "\<not> probe (dget d (p @ str_int (int c + int j)) PNone)" if "c \<in> set cs" "j < n" for c j
  proof -
    from that assms(2) have "c + j \<in> set [1..<m]" by fastforce
    with assms(1) have "\<not> probe (dget d (p @ str_int (int (c + j))) PNone)" by blast
    then show ?thesis by simp
  qed
  then show ?thesis
    unfolding first_candidate_def find_None_iff list_ex_iff by auto
qed

lemma old_get_hashboards_dump:
  "old_get_hashboards sf eh ec (PDict ((''STATS'', PList (s0 # PDict d # stats_rest)) # others)) stats_call =
     (case old_boards_loop sf ec d (board_offset_of d)
             (map (\<lambda>k. board_offset_of d + int k) [0..<eh]) [] of
        (None, hs) \<Rightarrow> Inr hs
      | (Some e, hs) \<Rightarrow> if old_caught e then Inr hs else Inl e)"
  by (simp add: old_get_hashboards_def or_fetch_def old_hashboards_try_dump)

text \<open>
  C4, as the code has it. The board resolver is the specification's: the candidates
  1, 6, 11 in order, five keys probed from each, the first candidate with a non-zero
  value taken as the offset, 1 when there is none. The fan resolver scans the
  candidates 1 and 5, four keys from each, but the offset it takes is the first
  successful candidate plus 2 (3 or 7), and 3 when there is none. Both extractions then
  read \<open>expected_hashboards\<close> (\<open>expected_fans\<close>) consecutive keys from the offset on.
\<close>

theorem resolver_offsets:
  "board_offset_of d = spec_resolver ''chain_acn'' [1, 6, 11] 5 1 d
   \<and> fan_offset_of d =
       (case first_candidate ''fan'' [1, 5] 4 d of Some c \<Rightarrow> int c + 2 | None \<Rightarrow> 3)
   \<and> old_hashboards_try sf eh ec (PDict ((''STATS'', PList (s0 # PDict d # stats_rest)) # others)) =
       old_boards_loop sf ec d (board_offset_of d)
         (map (\<lambda>k. board_offset_of d + int k) [0..<eh]) []
   \<and> old_get_fans n (PDict ((''STATS'', PList (s0 # PDict d # stats_rest)) # others)) stats_call =
       Inr (map (\<lambda>k. \<lparr>speed = dget d (''fan'' @ str_int (fan_offset_of d + int k)) (PInt 0)\<rparr>)
              [0..<n])"
  using board_offset_of_spec fan_offset_of_plus2 old_hashboards_try_dump old_get_fans_dump
  by blast

text \<open>C4 as stated fails for the fans: with speeds at \<open>fan1\<close> and \<open>fan2\<close> the first
  candidate with a non-zero value is 1, the offset used is 3, and the extraction reads
  \<open>fan3\<close> and \<open>fan4\<close>.\<close>

theorem fan_offset_is_not_the_candidate:
  "spec_resolver ''fan'' (py_range3 1 8 4) 4 3 fans_at_1 = 1
   \<and> fan_offset_of fans_at_1 = 3
   \<and> old_get_fans 2 (legacy_stats fans_at_1) (Inl APIError) = Inr [\<lparr>speed = PInt 0\<rparr>, \<lparr>speed = PInt 0\<rparr>]"
  by code_simp

text \<open>
  C5. In a dump whose \<open>chain_acn\<close> keys 1 to 10 are zero or absent and whose key 11 is
  not, the board offset is 11 and, with \<open>expected_hashboards = 3\<close>, the extraction is the
  loop over the key suffixes 11, 12, 13: slot \<open>j\<close> of the result carries the chip count
  at the suffix \<open>11 + j\<close>. In a dump where every probed key is zero or absent, the board
  offset is 1 and the fan offset is 3.
\<close>

theorem legacy_offset_examples:
  "(list_all (\<lambda>k. \<not> probe (dget d (''chain_acn'' @ str_int (int k)) PNone)) [1..<11] \<and>
    probe (dget d (''chain_acn'' @ str_int 11) PNone) \<longrightarrow>
      board_offset_of d = 11 \<and>
      old_get_hashboards sf 3 ec
          (PDict ((''STATS'', PList (s0 # PDict d # stats_rest)) # others)) stats_call =
        (case old_boards_loop sf ec d 11 [11, 12, 13] [] of
           (None, hs) \<Rightarrow> Inr hs
         | (Some e, hs) \<Rightarrow> if old_caught e then Inr hs else Inl e) \<and>
      (\<forall>hs. old_get_hashboards sf 3 ec
               (PDict ((''STATS'', PList (s0 # PDict d # stats_rest)) # others)) stats_call = Inr hs \<longrightarrow>
            length hs \<le> 3 \<and>
            (\<forall>j<length hs.
               slot (hs ! j) = int j \<and>
               chips (hs ! j) =
                 (if truthy (dget d (''chain_acn'' @ str_int (11 + int j)) PNone)
                  then dget d (''chain_acn'' @ str_int (11 + int j)) PNone else PNone))))
   \<and> (list_all (\<lambda>k. \<not> probe (dget d (''chain_acn'' @ str_int (int k)) PNone)) [1..<16] \<longrightarrow>
        board_offset_of d = 1)
   \<and> (list_all (\<lambda>k. \<not> probe (dget d (''fan'' @ str_int (int k)) PNone)) [1..<9] \<longrightarrow>
        fan_offset_of d = 3)"
proof (intro conjI impI)
  assume a: "list_all (\<lambda>k. \<not> probe (dget d (''chain_acn'' @ str_int (int k)) PNone)) [1..<11] \<and>
    probe (dget d (''chain_acn'' @ str_int 11) PNone)"
  then have "first_candidate ''chain_acn'' [1, 6, 11] 5 d = Some 11"
    by (intro group_at_11) (simp_all add: list_all_iff)
  then show off: "board_offset_of d = 11"
    by (simp add: board_offset_of_spec spec_resolver_def)
  have r: "map (\<lambda>k. 11 + int k) [0..<3] = [11, 12, 13]"
    by (simp add: upt_rec)
  show eq: "old_get_hashboards sf 3 ec
          (PDict ((''STATS'', PList (s0 # PDict d # stats_rest)) # others)) stats_call =
        (case old_boards_loop sf ec d 11 [11, 12, 13] [] of
           (None, hs) \<Rightarrow> Inr hs
         | (Some e, hs) \<Rightarrow> if old_caught e then Inr hs else Inl e)"
    unfolding old_get_hashboards_dump off r ..
  show "\<forall>hs. old_get_hashboards sf 3 ec
               (PDict ((''STATS'', PList (s0 # PDict d # stats_rest)) # others)) stats_call = Inr hs \<longrightarrow>
            length hs \<le> 3 \<and>
            (\<forall>j<length hs.
               slot (hs ! j) = int j \<and>
               chips (hs ! j) =
                 (if truthy (dget d (''chain_acn'' @ str_int (11 + int j)) PNone)
                  then dget d (''chain_acn'' @ str_int (11 + int j)) PNone else PNone))"
  proof (intro allI impI)
    fix hs
    assume h: "old_get_hashboards sf 3 ec
               (PDict ((''STATS'', PList (s0 # PDict d # stats_rest)) # others)) stats_call = Inr hs"
    obtain r' hs' where l: "old_boards_loop sf ec d 11 [11, 12, 13] [] = (r', hs')"
      by (cases "old_boards_loop sf ec d 11 [11, 12, 13] []")
    with h eq have "hs' = hs"
      by (auto split: option.splits if_splits)
    with old_boards_loop_result [OF l] have
      b: "length hs \<le> 3" "\<forall>j<length hs. old_board sf ec d 11 ([11, 12, 13] ! j) = Inr (hs ! j)"
      by auto
    have "slot (hs ! j) = int j \<and>
          chips (hs ! j) =
            (if truthy (dget d (''chain_acn'' @ str_int (11 + int j)) PNone)
             then dget d (''chain_acn'' @ str_int (11 + int j)) PNone else PNone)"
      if "j < length hs" for j
    proof -
      from that b(1) have "j < 3" by simp
      then have "[11, 12, 13] ! j = 11 + int j"
        by (cases j rule: nat.exhaust; simp add: nth_Cons split: nat.splits)
      with b(2) that have "old_board sf ec d 11 (11 + int j) = Inr (hs ! j)"
        by metis
      from old_board_Inr(1,3) [OF this] show ?thesis by simp
    qed
    with b(1) show "length hs \<le> 3 \<and>
            (\<forall>j<length hs.
               slot (hs ! j) = int j \<and>
               chips (hs ! j) =
                 (if truthy (dget d (''chain_acn'' @ str_int (11 + int j)) PNone)
                  then dget d (''chain_acn'' @ str_int (11 + int j)) PNone else PNone))"
      by blast
  qed
next
  assume "list_all (\<lambda>k. \<not> probe (dget d (''chain_acn'' @ str_int (int k)) PNone)) [1..<16]"
  then have "first_candidate ''chain_acn'' [1, 6, 11] 5 d = None"
    by (intro no_candidate [where m = 16]) (simp_all add: list_all_iff)
  then show "board_offset_of d = 1"
    by (simp add: board_offset_of_spec spec_resolver_def)
next
  assume "list_all (\<lambda>k. \<not> probe (dget d (''fan'' @ str_int (int k)) PNone)) [1..<9]"
  then have "first_candidate ''fan'' [1, 5] 4 d = None"
    by (intro no_candidate [where m = 9]) (simp_all add: list_all_iff)
  then show "fan_offset_of d = 3"
    by (simp add: fan_offset_of_plus2)
qed

lemma dump_at_11_boards:
  "old_get_hashboards Map.empty 3 63 (legacy_stats dump_at_11) (Inl APIError) =
     Inr [\<lparr>slot = 0, hashrate = PFloat 4.5, temp = PNone, chip_temp = PInt 58,
            chips = PInt 63, expected_chips = 63, serial_number = PNone, missing = False\<rparr>,
          \<lparr>slot = 1, hashrate = PFloat 4.4, temp = PNone, chip_temp = PInt 60,
            chips = PInt 62, expected_chips = 63, serial_number = PNone, missing = False\<rparr>,
          \<lparr>slot = 2, hashrate = PFloat 4.3, temp = PNone, chip_temp = PInt 59,
            chips = PInt 61, expected_chips = 63, serial_number = PNone, missing = False\<rparr>]"
  by code_simp

theorem legacy_offset_examples_witness:
  "list_all (\<lambda>k. \<not> probe (dget dump_at_11 (''chain_acn'' @ str_int (int k)) PNone)) [1..<11]
   \<and> probe (dget dump_at_11 (''chain_acn'' @ str_int 11) PNone)
   \<and> board_offset_of dump_at_11 = 11
   \<and> old_get_hashboards Map.empty 3 63 (legacy_stats dump_at_11) (Inl APIError) =
       (case old_boards_loop Map.empty 63 dump_at_11 11 [11, 12, 13] [] of
          (None, hs) \<Rightarrow> Inr hs
        | (Some e, hs) \<Rightarrow> if old_caught e then Inr hs else Inl e)
   \<and> old_get_hashboards Map.empty 3 63 (legacy_stats dump_at_11) (Inl APIError) =
       Inr [\<lparr>slot = 0, hashrate = PFloat 4.5, temp = PNone, chip_temp = PInt 58,
              chips = PInt 63, expected_chips = 63, serial_number = PNone, missing = False\<rparr>,
            \<lparr>slot = 1, hashrate = PFloat 4.4, temp = PNone, chip_temp = PInt 60,
              chips = PInt 62, expected_chips = 63, serial_number = PNone, missing = False\<rparr>,
            \<lparr>slot = 2, hashrate = PFloat 4.3, temp = PNone, chip_temp = PInt 59,
              chips = PInt 61, expected_chips = 63, serial_number = PNone, missing = False\<rparr>]
   \<and> list_all (\<lambda>k. \<not> probe (dget dump_all_zero (''chain_acn'' @ str_int (int k)) PNone)) [1..<16]
   \<and> board_offset_of dump_all_zero = 1
   \<and> list_all (\<lambda>k. \<not> probe (dget dump_all_zero (''fan'' @ str_int (int k)) PNone)) [1..<9]
   \<and> fan_offset_of dump_all_zero = 3"
proof -
  have h1: "list_all (\<lambda>k. \<not> probe (dget dump_at_11 (''chain_acn'' @ str_int (int k)) PNone)) [1..<11]"
    by code_simp
  have h2: "probe (dget dump_at_11 (''chain_acn'' @ str_int 11) PNone)"
    by code_simp
  have h3: "list_all (\<lambda>k. \<not> probe (dget dump_all_zero (''chain_acn'' @ str_int (int k)) PNone)) [1..<16]"
    by code_simp
  have h4: "list_all (\<lambda>k. \<not> probe (dget dump_all_zero (''fan'' @ str_int (int k)) PNone)) [1..<9]"
    by code_simp
  note t = legacy_offset_examples [where d = dump_at_11 and sf = Map.empty and ec = 63 and
      ?s0.0 = "PDict [(''Type'', PStr ''Antminer S9'')]" and stats_rest = "[]" and others = "[]" and
      stats_call = "Inl APIError"]
  note z = legacy_offset_examples [where d = dump_all_zero]
  from t h1 h2 have c1: "board_offset_of dump_at_11 = 11" by blast
  from t h1 h2 have c2: "old_get_hashboards Map.empty 3 63 (legacy_stats dump_at_11) (Inl APIError) =
       (case old_boards_loop Map.empty 63 dump_at_11 11 [11, 12, 13] [] of
          (None, hs) \<Rightarrow> Inr hs
        | (Some e, hs) \<Rightarrow> if old_caught e then Inr hs else Inl e)"
    unfolding legacy_stats_def by blast
  from z h3 have c3: "board_offset_of dump_all_zero = 1" by blast
  from z h4 have c4: "fan_offset_of dump_all_zero = 3" by blast
  show ?thesis
    using h1 h2 h3 h4 c1 c2 c3 c4 dump_at_11_boards by (intro conjI)
qed

section \<open>The expected hashrate\<close>



section \<open>Extractors without a payload\<close>

text \<open>
  C2. \<open>AntminerModern._get_mac\<close> with no payload and both web calls failing: the
  \<open>APIError\<close> of \<open>get_system_info\<close> is caught, the one of \<open>get_network_info\<close> is not
  (that call is guarded by \<open>except KeyError\<close> only) and leaves the extractor. The same
  holds with a payload that lacks \<open>macaddr\<close>, and for \<open>AntminerOld._get_mac\<close>.
  \<open>AntminerOld._is_mining\<close> with a work mode of the wrong type raises \<open>TypeError\<close>
  past its \<open>except LookupError\<close>.
\<close>

theorem extractors_raise:
  "modern_get_mac PNone (Inl APIError) (Inl APIError) = Inl APIError
   \<and> modern_get_mac (PDict [(''hostname'', PStr ''miner1'')]) system_info (Inl APIError) = Inl APIError
   \<and> old_get_mac (Inl APIError) = Inl APIError
   \<and> old_is_mining str_to_int (PDict [(''bitmain-work-mode'', PNone)]) miner_conf summary = Inl TypeError"
  by (simp add: modern_get_mac_def old_get_mac_def old_is_mining_def or_fetch_def is_LookupError_def)

section \<open>The fault light\<close>

lemma get_fault_light_on:
  "truthy (light m) \<Longrightarrow> modern_get_fault_light arg resp m = (Inr (light m), m)"
  by (simp add: modern_get_fault_light_def)

lemma fault_light_reads_on:
  "light m = PBool True \<Longrightarrow>
     fault_light_reads qs m = (replicate (length qs) (Inr (PBool True)), m)"
  by (induction qs) (simp_all add: get_fault_light_on)

text \<open>
  C9. When the response to the blink command is a mapping whose \<open>code\<close> is "B000",
  \<open>fault_light_on\<close> returns \<open>True\<close> and caches it; any run of FAULT\_LIGHT reads after
  it, whatever their arguments and whatever the transport would answer, returns \<open>True\<close>
  every time and leaves the handle as it was, the log of web commands included: no
  query is issued. When the mapping carries another code or none, or the response is
  \<open>None\<close>, the cached state is the prior one and the call returns it (no exception).
\<close>

theorem fault_light_on_cached:
  "(d \<noteq> [] \<and> dget d ''code'' PNone = PStr ''B000'' \<longrightarrow>
      modern_fault_light_on (Inr (PDict d)) m =
        (Inr (PBool True), m\<lparr>light := PBool True, web_log := web_log m @ [''blink'']\<rparr>) \<and>
      fault_light_reads qs (m\<lparr>light := PBool True, web_log := web_log m @ [''blink'']\<rparr>) =
        (replicate (length qs) (Inr (PBool True)),
         m\<lparr>light := PBool True, web_log := web_log m @ [''blink'']\<rparr>))
   \<and> (dget d ''code'' PNone \<noteq> PStr ''B000'' \<longrightarrow>
        modern_fault_light_on (Inr (PDict d)) m =
          (Inr (light m), m\<lparr>web_log := web_log m @ [''blink'']\<rparr>))
   \<and> modern_fault_light_on (Inr PNone) m = (Inr (light m), m\<lparr>web_log := web_log m @ [''blink'']\<rparr>)"
  by (auto simp: modern_fault_light_on_def py_get_def Let_def fault_light_reads_on)

theorem fault_light_on_cached_witness:
  "[(''code'', PStr ''B000'')] \<noteq> []
   \<and> dget [(''code'', PStr ''B000'')] ''code'' PNone = PStr ''B000''
   \<and> modern_fault_light_on (Inr (PDict [(''code'', PStr ''B000'')])) \<lparr>light = PBool False, web_log = []\<rparr> =
       (Inr (PBool True), \<lparr>light = PBool True, web_log = [''blink'']\<rparr>)
   \<and> fault_light_reads [(PNone, Inl APIError), (PNone, Inr (PDict [(''blink'', PBool False)]))]
         \<lparr>light = PBool True, web_log = [''blink'']\<rparr> =
       ([Inr (PBool True), Inr (PBool True)], \<lparr>light = PBool True, web_log = [''blink'']\<rparr>)
   \<and> dget [(''code'', PStr ''B001'')] ''code'' PNone \<noteq> PStr ''B000''
   \<and> modern_fault_light_on (Inr (PDict [(''code'', PStr ''B001'')])) \<lparr>light = PBool False, web_log = []\<rparr> =
       (Inr (PBool False), \<lparr>light = PBool False, web_log = [''blink'']\<rparr>)"
proof -
  have h1: "[(''code'', PStr ''B000'')] \<noteq> [] \<and> dget [(''code'', PStr ''B000'')] ''code'' PNone = PStr ''B000''"
    by (simp add: dget_def)
  have h2: "dget [(''code'', PStr ''B001'')] ''code'' PNone \<noteq> PStr ''B000''"
    by (simp add: dget_def)
  note t1 = fault_light_on_cached [where d = "[(''code'', PStr ''B000'')]" and
      m = "\<lparr>light = PBool False, web_log = []\<rparr>" and
      qs = "[(PNone, Inl APIError), (PNone, Inr (PDict [(''blink'', PBool False)]))]"]
  note t2 = fault_light_on_cached [where d = "[(''code'', PStr ''B001'')]" and
      m = "\<lparr>light = PBool False, web_log = []\<rparr>"]
  from t1 h1 have c1:
    "modern_fault_light_on (Inr (PDict [(''code'', PStr ''B000'')])) \<lparr>light = PBool False, web_log = []\<rparr> =
       (Inr (PBool True), \<lparr>light = PBool True, web_log = [''blink'']\<rparr>)"
    "fault_light_reads [(PNone, Inl APIError), (PNone, Inr (PDict [(''blink'', PBool False)]))]
         \<lparr>light = PBool True, web_log = [''blink'']\<rparr> =
       ([Inr (PBool True), Inr (PBool True)], \<lparr>light = PBool True, web_log = [''blink'']\<rparr>)"
    by simp_all
  from t2 h2 have c2:
    "modern_fault_light_on (Inr (PDict [(''code'', PStr ''B001'')])) \<lparr>light = PBool False, web_log = []\<rparr> =
       (Inr (PBool False), \<lparr>light = PBool False, web_log = [''blink'']\<rparr>)"
    by simp
  show ?thesis
    using h1 h2 c1 c2 by (intro conjI) simp_all
qed

end
